theory Spec2Isabelle
  imports Main "HOL-Library.Sublist"
begin

section \<open>Strings and dictionaries as the Python code uses them\<close>

text \<open>
  A Python \<open>str\<close> is a \<open>string\<close>; \<open>len\<close> is \<open>length\<close>. The characters of the
  model are the code points below 256, so the whitespace test lists the code points
  below 256 for which \<open>str.isspace\<close> holds (and which the pattern \<open>\s\<close> matches).
\<close>

definition NL :: string where
  "NL = [CHR 0x0A]"

definition isspace :: "char \<Rightarrow> bool" where
  "isspace c = (c \<in> set [CHR 0x09, CHR 0x0A, CHR 0x0B, CHR 0x0C, CHR 0x0D,
                           CHR 0x1C, CHR 0x1D, CHR 0x1E, CHR 0x1F, CHR 0x20,
                           CHR 0x85, CHR 0xA0])"

text \<open>\<open>s.strip()\<close>: leading and trailing whitespace removed.\<close>

definition strip :: "string \<Rightarrow> string" where
  "strip s = rev (dropWhile isspace (rev (dropWhile isspace s)))"

text \<open>\<open>sep.join(xs)\<close>.\<close>

fun join :: "string \<Rightarrow> string list \<Rightarrow> string" where
  "join sep [] = []"
| "join sep [x] = x"
| "join sep (x # y # ys) = x @ sep @ join sep (y # ys)"

text \<open>\<open>d.get(k, default)\<close> on a dictionary with string keys and string values.\<close>

definition dict_get :: "(string \<rightharpoonup> string) \<Rightarrow> string \<Rightarrow> string \<Rightarrow> string" where
  "dict_get d k dflt = (case d k of None \<Rightarrow> dflt | Some v \<Rightarrow> v)"

text \<open>
  \<open>d.get(k1) or d.get(k2, dflt)\<close>: the first value when the key is there and the value
  is not the empty string, otherwise the second lookup.
\<close>

definition dict_get_or :: "(string \<rightharpoonup> string) \<Rightarrow> string \<Rightarrow> string \<Rightarrow> string \<Rightarrow> string" where
  "dict_get_or d k1 k2 dflt =
     (case d k1 of
        None \<Rightarrow> dict_get d k2 dflt
      | Some v \<Rightarrow> if v \<noteq> [] then v else dict_get d k2 dflt)"

section \<open>Errors\<close>

text \<open>
  Every \<open>raise\<close> of the source is a value: \<open>ValueError\<close> is what the factory and
  \<open>get_llm\<close> raise, \<open>TypeError\<close> a constructor called with a keyword it does not
  declare, \<open>KeyError\<close> and \<open>IndexError\<close> a failed subscript, \<open>Exception\<close> the
  re-raised transport failures of the HTTP clients and whatever an external service raises.
\<close>

datatype error =
    ValueError string
  | TypeError string
  | KeyError string
  | IndexError
  | Exception string

section \<open>Configuration (config/settings.py)\<close>

record config =
  LLM_PROVIDER :: string
  OLLAMA_BASE_URL :: string
  OLLAMA_MODEL :: string
  LLAMA_MODEL :: string

definition MAX_CONTEXT_LENGTH :: int where
  "MAX_CONTEXT_LENGTH = 3000"

definition TOP_K_RESULTS :: nat where
  "TOP_K_RESULTS = 5"

section \<open>LLM providers (llm/providers.py)\<close>

record ollama_provider =
  base_url :: string
  model :: string

datatype llm_provider = OllamaProvider ollama_provider

text \<open>
  \<open>OllamaProvider(**config)\<close>: the keyword arguments are an association list. The
  constructor declares \<open>base_url\<close> and \<open>model\<close>, both with defaults; any other keyword
  is a \<open>TypeError\<close>.
\<close>

definition OllamaProvider_init :: "(string \<times> string) list \<Rightarrow> error + llm_provider" where
  "OllamaProvider_init kwargs =
     (case filter (\<lambda>k. k \<noteq> ''base_url'' \<and> k \<noteq> ''model'') (map fst kwargs) of
        k # _ \<Rightarrow> Inl (TypeError (''__init__() got an unexpected keyword argument '' @ [CHR 0x27] @ k @ [CHR 0x27]))
      | [] \<Rightarrow>
          Inr (OllamaProvider
            \<lparr> base_url = dict_get (map_of kwargs) ''base_url'' ''http://localhost:11434'',
              model = dict_get (map_of kwargs) ''model'' ''llama3.2'' \<rparr>))"

text \<open>The dictionary \<open>providers\<close> of the factory, in insertion order.\<close>

definition providers :: "(string \<times> ((string \<times> string) list \<Rightarrow> error + llm_provider)) list" where
  "providers = [(''ollama'', OllamaProvider_init)]"

text \<open>
  \<open>repr\<close> of a string without quotes, backslashes or unprintable characters (the keys
  of \<open>providers\<close> are such), and \<open>str\<close> of a list of such strings.
\<close>

definition repr_str :: "string \<Rightarrow> string" where
  "repr_str s = [CHR 0x27] @ s @ [CHR 0x27]"

definition str_list :: "string list \<Rightarrow> string" where
  "str_list xs = ''['' @ join '', '' (map repr_str xs) @ '']''"

definition get_llm_provider :: "string \<Rightarrow> (string \<times> string) list \<Rightarrow> error + llm_provider" where
  "get_llm_provider provider_name kwargs =
     (case map_of providers provider_name of
        None \<Rightarrow>
          Inl (ValueError (''Unknown provider: '' @ provider_name @ ''. Available: ''
                 @ str_list (map fst providers)))
      | Some cls \<Rightarrow> cls kwargs)"

section \<open>Matches and sources\<close>

text \<open>
  A match of the vector index: its id, its score (a float the code only copies, so the
  type is left open) and its metadata dictionary. A source is the dictionary with the
  six fixed keys that \<open>generate_answer\<close> builds per match.
\<close>

record 's match =
  match_id :: string
  score :: 's
  metadata :: "string \<rightharpoonup> string"

record 's source =
  src_id :: string
  src_score :: 's
  src_subject :: string
  src_from :: string
  src_date :: string
  src_snippet :: string

section \<open>External services\<close>

text \<open>
  What the pipeline reaches over the network, as functions of the request: the Pinecone
  connection of \<open>init_pinecone\<close>, the query of the index, and the two HTTP endpoints of
  Ollama (embeddings and generation). Each returns its result or the error it raises.
\<close>

record ollama_request =
  req_url :: string
  req_model :: string
  req_prompt :: string
  num_predict :: nat

record ('ix, 'v, 's) services =
  init_pinecone :: "error + 'ix"
  index_query :: "'ix \<Rightarrow> 'v \<Rightarrow> nat \<Rightarrow> error + 's match list"
  embeddings_post :: "string \<Rightarrow> string \<Rightarrow> string \<Rightarrow> error + 'v"
  generate_post :: "ollama_request \<Rightarrow> error + string"

text \<open>\<open>query_similar(index, vector, top_k)\<close> with no filter: one query of the index.\<close>

definition query_similar ::
  "('ix, 'v, 's) services \<Rightarrow> 'ix \<Rightarrow> 'v \<Rightarrow> nat \<Rightarrow> error + 's match list" where
  "query_similar sv index vector top_k = index_query sv index vector top_k"

text \<open>
  \<open>get_embeddings(texts)\<close>: one POST per text, in order; the first failure ends the
  loop with its error.
\<close>

fun get_embeddings ::
  "config \<Rightarrow> ('ix, 'v, 's) services \<Rightarrow> string list \<Rightarrow> error + 'v list" where
  "get_embeddings cfg sv [] = Inr []"
| "get_embeddings cfg sv (t # ts) =
     (case embeddings_post sv (OLLAMA_BASE_URL cfg @ ''/api/embeddings'') (OLLAMA_MODEL cfg) t of
        Inl e \<Rightarrow> Inl e
      | Inr embedding \<Rightarrow>
          (case get_embeddings cfg sv ts of
             Inl e \<Rightarrow> Inl e
           | Inr embeddings \<Rightarrow> Inr (embedding # embeddings)))"

section \<open>The answer pipeline (rag\_core/generate\_answer.py)\<close>

definition get_llm :: "config \<Rightarrow> error + llm_provider" where
  "get_llm cfg =
     (if LLM_PROVIDER cfg = ''ollama''
      then get_llm_provider ''ollama''
             [(''base_url'', OLLAMA_BASE_URL cfg), (''model'', LLAMA_MODEL cfg)]
      else Inl (ValueError (''Unknown LLM provider: '' @ LLM_PROVIDER cfg
                  @ ''. Available: '' @ repr_str ''ollama'')))"

definition instruction :: string where
  "instruction =
     ''Using only the CONTEXT above, answer the QUESTION as accurately and completely as possible.''"

definition build_prompt :: "string \<Rightarrow> string list \<Rightarrow> string" where
  "build_prompt question email_snippets =
     (let context = join (NL @ NL) email_snippets
      in ''QUESTION:'' @ NL @ question @ NL @ NL
         @ ''CONTEXT:'' @ NL @ context @ NL @ NL
         @ instruction)"

text \<open>
  \<open>OllamaProvider.generate\<close>: one POST to \<open>/api/generate\<close>; the answer is the response
  text stripped. The second component is the list of requests sent to the Generator so
  far, the POST appended. (The sampling options of the request are constants and are
  left out of the request record.)
\<close>

fun generate ::
  "('ix, 'v, 's) services \<Rightarrow> llm_provider \<Rightarrow> string \<Rightarrow> nat \<Rightarrow> ollama_request list
     \<Rightarrow> (error + string) \<times> ollama_request list" where
  "generate sv (OllamaProvider p) prompt max_tokens sent =
     (let payload = \<lparr> req_url = base_url p @ ''/api/generate'', req_model = model p,
                       req_prompt = prompt, num_predict = max_tokens \<rparr>
      in (case generate_post sv payload of
            Inl e \<Rightarrow> (Inl e, sent @ [payload])
          | Inr response \<Rightarrow> (Inr (strip response), sent @ [payload])))"

definition generate_llm_answer ::
  "config \<Rightarrow> ('ix, 'v, 's) services \<Rightarrow> string \<Rightarrow> ollama_request list
     \<Rightarrow> (error + string) \<times> ollama_request list" where
  "generate_llm_answer cfg sv prompt sent =
     (case get_llm cfg of
        Inl e \<Rightarrow> (Inl e, sent)
      | Inr llm \<Rightarrow> generate sv llm prompt 512 sent)"

text \<open>The context block and the source entry that the loop over the matches builds.\<close>

definition match_context :: "'s match \<Rightarrow> string" where
  "match_context m =
     (let md = metadata m;
          context = ''Subject: '' @ dict_get md ''subject'' ''N/A'' @ NL;
          context = context @ ''From: '' @ dict_get md ''from'' ''N/A'' @ NL;
          context = context @ ''Date: '' @ dict_get md ''date'' ''N/A'' @ NL;
          content = dict_get_or md ''body_preview'' ''snippet'' [];
          context = context @ ''Content: '' @ content @ NL
      in context)"

definition match_source :: "'s match \<Rightarrow> 's source" where
  "match_source m =
     (let md = metadata m
      in \<lparr> src_id = match_id m,
           src_score = score m,
           src_subject = dict_get md ''subject'' ''N/A'',
           src_from = dict_get md ''from'' ''N/A'',
           src_date = dict_get md ''date'' ''N/A'',
           src_snippet = dict_get md ''snippet'' [] \<rparr>)"

text \<open>
  The loop \<open>for match in matches\<close>: both lists grow by one entry per match, appended
  at the end.
\<close>

fun collect_matches ::
  "'s match list \<Rightarrow> string list \<times> 's source list \<Rightarrow> string list \<times> 's source list" where
  "collect_matches [] (email_contexts, source_emails) = (email_contexts, source_emails)"
| "collect_matches (m # ms) (email_contexts, source_emails) =
     collect_matches ms (email_contexts @ [match_context m], source_emails @ [match_source m])"

text \<open>
  The truncation loop: \<open>truncated_contexts\<close> and \<open>current_length\<close> are the two loop
  variables; \<open>break\<close> returns them as they are.
\<close>

fun truncate_loop :: "int \<Rightarrow> string list \<Rightarrow> string list \<times> int \<Rightarrow> string list \<times> int" where
  "truncate_loop available_context_length [] (truncated_contexts, current_length) =
     (truncated_contexts, current_length)"
| "truncate_loop available_context_length (context # rest) (truncated_contexts, current_length) =
     (if current_length + int (length context) < available_context_length
      then truncate_loop available_context_length rest
             (truncated_contexts @ [context], current_length + int (length context))
      else (truncated_contexts, current_length))"

definition truncated_contexts :: "string \<Rightarrow> string list \<Rightarrow> string list" where
  "truncated_contexts question email_contexts =
     (let available_context_length = MAX_CONTEXT_LENGTH - int (length question) - 100
      in fst (truncate_loop available_context_length email_contexts ([], 0)))"

text \<open>The prompt that lines 100 to 116 leave in \<open>prompt\<close>.\<close>

definition final_prompt :: "string \<Rightarrow> string list \<Rightarrow> string" where
  "final_prompt question email_contexts =
     (let prompt = build_prompt question email_contexts
      in if int (length prompt) > MAX_CONTEXT_LENGTH
         then build_prompt question (truncated_contexts question email_contexts)
         else prompt)"

definition no_matches_answer :: string where
  "no_matches_answer = ''No relevant emails found for your question.''"

text \<open>
  \<open>generate_answer\<close>: the result is the pair (answer, sources) or the error raised, and
  with it the requests sent to the Generator.
\<close>

definition generate_answer ::
  "config \<Rightarrow> ('ix, 'v, 's) services \<Rightarrow> string \<Rightarrow> ollama_request list
     \<Rightarrow> (error + string \<times> 's source list) \<times> ollama_request list" where
  "generate_answer cfg sv question sent =
     (case init_pinecone sv of
        Inl e \<Rightarrow> (Inl e, sent)
      | Inr index \<Rightarrow>
     (case get_embeddings cfg sv [question] of
        Inl e \<Rightarrow> (Inl e, sent)
      | Inr [] \<Rightarrow> (Inl IndexError, sent)
      | Inr (question_embedding # _) \<Rightarrow>
     (case query_similar sv index question_embedding TOP_K_RESULTS of
        Inl e \<Rightarrow> (Inl e, sent)
      | Inr matches \<Rightarrow>
          if matches = [] then (Inr (no_matches_answer, []), sent)
          else
            (let (email_contexts, source_emails) = collect_matches matches ([], []);
                 prompt = final_prompt question email_contexts
             in (case generate_llm_answer cfg sv prompt sent of
                   (Inl e, sent') \<Rightarrow> (Inl e, sent')
                 | (Inr answer, sent') \<Rightarrow> (Inr (answer, source_emails), sent'))))))"

text \<open>
  Lines 60 to 66 of \<open>generate_answer\<close> on their own: the matches the index returns
  for the question, or the error raised on the way.
\<close>

definition retrieve ::
  "config \<Rightarrow> ('ix, 'v, 's) services \<Rightarrow> string \<Rightarrow> error + 's match list" where
  "retrieve cfg sv question =
     (case init_pinecone sv of
        Inl e \<Rightarrow> Inl e
      | Inr index \<Rightarrow>
     (case get_embeddings cfg sv [question] of
        Inl e \<Rightarrow> Inl e
      | Inr [] \<Rightarrow> Inl IndexError
      | Inr (question_embedding # _) \<Rightarrow>
          query_similar sv index question_embedding TOP_K_RESULTS))"

text \<open>The request that \<open>generate_llm_answer\<close> posts for a prompt under a configuration.\<close>

definition generator_request :: "config \<Rightarrow> string \<Rightarrow> ollama_request" where
  "generator_request cfg prompt =
     \<lparr> req_url = OLLAMA_BASE_URL cfg @ ''/api/generate'', req_model = LLAMA_MODEL cfg,
       req_prompt = prompt, num_predict = 512 \<rparr>"

text \<open>The summed lengths of a list of context blocks, as \<open>current_length\<close> counts them.\<close>

definition total_length :: "string list \<Rightarrow> int" where
  "total_length cs = int (sum_list (map length cs))"

section \<open>Body extraction (email\_ingest/fetch\_email.py)\<close>




text \<open>
  A payload of the Gmail API is a dictionary; the code reads three of its keys, each of
  which may be absent: \<open>mimeType\<close>, \<open>body\<close> (a dictionary whose key \<open>data\<close> may be absent)
  and \<open>parts\<close> (a list of payloads).
\<close>

datatype body = Body (data: "string option")

datatype payload =
  Payload (mimeType: "string option") (body: "body option") (parts: "payload list option")


section \<open>The specification's wording, for comparison\<close>

text \<open>
  Following the specification's words: "stop at the first context that would exceed the
  available budget". A context is taken while the accumulated length with it does not
  exceed the available budget.
\<close>

fun spec_included_contexts :: "int \<Rightarrow> int \<Rightarrow> string list \<Rightarrow> string list" where
  "spec_included_contexts available current_length [] = []"
| "spec_included_contexts available current_length (context # rest) =
     (if current_length + int (length context) > available then []
      else context # spec_included_contexts available (current_length + int (length context)) rest)"




section \<open>Concrete inputs\<close>

definition demo_config :: config where
  "demo_config =
     \<lparr> LLM_PROVIDER = ''ollama'', OLLAMA_BASE_URL = ''http://localhost:11434'',
       OLLAMA_MODEL = ''nomic-embed-text'', LLAMA_MODEL = ''llama3.2'' \<rparr>"

text \<open>
  Services that answer: the index holds the given matches and returns the first
  \<open>top_k\<close> of them, the embedding of a text is a one-element vector, and the Generator
  answers every prompt with the given response. Scores are in thousandths.
\<close>

definition demo_services :: "int match list \<Rightarrow> string \<Rightarrow> (unit, nat list, int) services" where
  "demo_services ms response =
     \<lparr> init_pinecone = Inr (),
       index_query = (\<lambda>index vector top_k. Inr (take top_k ms)),
       embeddings_post = (\<lambda>url model text. Inr [length text]),
       generate_post = (\<lambda>payload. Inr response) \<rparr>"

definition meeting_match :: "int match" where
  "meeting_match =
     \<lparr> match_id = ''18c2f0a1'', score = 912,
       metadata = [''subject'' \<mapsto> ''Project meeting tomorrow'', ''from'' \<mapsto> ''a@x.com'',
                   ''date'' \<mapsto> ''Mon'',
                   ''body_preview'' \<mapsto> ''Our next meeting is tomorrow at 2 PM in room B.''] \<rparr>"

text \<open>A match that carries nothing but a body preview of \<open>n\<close> characters.\<close>

definition preview_match :: "string \<Rightarrow> nat \<Rightarrow> int match" where
  "preview_match i n =
     \<lparr> match_id = i, score = 500, metadata = [''body_preview'' \<mapsto> replicate n (CHR ''x'')] \<rparr>"

text \<open>
  Four matches with previews of 1000 characters; three matches whose context blocks have
  2898 characters together; three whose blocks have 2899 together.
\<close>

definition four_long_matches :: "int match list" where
  "four_long_matches =
     [preview_match ''m1'' 1000, preview_match ''m2'' 1000,
      preview_match ''m3'' 1000, preview_match ''m4'' 1000]"

definition three_matches_2898 :: "int match list" where
  "three_matches_2898 = [preview_match ''m1'' 923, preview_match ''m2'' 923, preview_match ''m3'' 923]"

definition three_matches_2899 :: "int match list" where
  "three_matches_2899 = [preview_match ''m1'' 923, preview_match ''m2'' 923, preview_match ''m3'' 924]"

text \<open>A match without \<open>from\<close> and without \<open>snippet\<close>.\<close>

definition sparse_match :: "int match" where
  "sparse_match =
     \<lparr> match_id = ''18c2f0b7'', score = 640,
       metadata = [''subject'' \<mapsto> ''Invoice'', ''date'' \<mapsto> ''Tue''] \<rparr>"







section \<open>Facts about the helpers\<close>

lemma get_embeddings_single:
  "get_embeddings cfg sv [q] =
     (case embeddings_post sv (OLLAMA_BASE_URL cfg @ ''/api/embeddings'') (OLLAMA_MODEL cfg) q of
        Inl e \<Rightarrow> Inl e | Inr v \<Rightarrow> Inr [v])"
  by (simp split: sum.splits)

lemma collect_matches_map:
  "collect_matches ms (cs, ss) = (cs @ map match_context ms, ss @ map match_source ms)"
  by (induction ms arbitrary: cs ss) simp_all

lemma total_length_Nil: "total_length [] = 0"
  by (simp add: total_length_def)

lemma total_length_Cons: "total_length (c # cs) = int (length c) + total_length cs"
  by (simp add: total_length_def)

lemma truncate_loop_prefix:
  "\<exists>k\<le>length cs.
      truncate_loop a cs (acc, cur) = (acc @ take k cs, cur + total_length (take k cs))
    \<and> (\<forall>j<k. cur + total_length (take (Suc j) cs) < a)
    \<and> (k < length cs \<longrightarrow> a \<le> cur + total_length (take (Suc k) cs))"
proof (induction cs arbitrary: acc cur)
  case Nil
  then show ?case by (simp add: total_length_Nil)
next
  case (Cons c cs)
  show ?case
  proof (cases "cur + int (length c) < a")
    case False
    then show ?thesis
      by (intro exI [of _ 0]) (simp add: total_length_Nil total_length_Cons)
  next
    case True
    from Cons.IH [of "acc @ [c]" "cur + int (length c)"]
    obtain k where k: "k \<le> length cs"
      "truncate_loop a cs (acc @ [c], cur + int (length c))
         = ((acc @ [c]) @ take k cs, cur + int (length c) + total_length (take k cs))"
      "\<forall>j<k. cur + int (length c) + total_length (take (Suc j) cs) < a"
      "k < length cs \<longrightarrow> a \<le> cur + int (length c) + total_length (take (Suc k) cs)"
      by blast
    have "\<forall>j<Suc k. cur + total_length (take (Suc j) (c # cs)) < a"
    proof (intro allI impI)
      fix j assume "j < Suc k"
      then show "cur + total_length (take (Suc j) (c # cs)) < a"
        using True k(3) by (cases j) (auto simp: total_length_Nil total_length_Cons add.assoc)
    qed
    with True k show ?thesis
      by (intro exI [of _ "Suc k"]) (simp add: total_length_Cons add.assoc)
  qed
qed

lemma length_join:
  "length (join sep cs) = sum_list (map length cs) + length sep * (length cs - 1)"
  by (induction sep cs rule: join.induct) simp_all

lemma length_build_prompt:
  "length (build_prompt q cs) = 114 + length q + length (join (NL @ NL) cs)"
  by (simp add: build_prompt_def instruction_def NL_def)

lemma generate_answer_retrieve:
  "generate_answer cfg sv question sent =
     (case retrieve cfg sv question of
        Inl e \<Rightarrow> (Inl e, sent)
      | Inr matches \<Rightarrow>
          if matches = [] then (Inr (no_matches_answer, []), sent)
          else (case generate_llm_answer cfg sv
                       (final_prompt question (map match_context matches)) sent of
                  (Inl e, sent') \<Rightarrow> (Inl e, sent')
                | (Inr answer, sent') \<Rightarrow> (Inr (answer, map match_source matches), sent')))"
  by (simp add: generate_answer_def retrieve_def collect_matches_map
      split: sum.splits list.splits prod.splits)

lemma get_llm_ollama:
  "LLM_PROVIDER cfg = ''ollama'' \<Longrightarrow>
   get_llm cfg = Inr (OllamaProvider \<lparr> base_url = OLLAMA_BASE_URL cfg, model = LLAMA_MODEL cfg \<rparr>)"
  by (simp add: get_llm_def get_llm_provider_def providers_def OllamaProvider_init_def dict_get_def)

lemma generate_llm_answer_ollama:
  "LLM_PROVIDER cfg = ''ollama'' \<Longrightarrow>
   generate_llm_answer cfg sv prompt sent =
     (case generate_post sv (generator_request cfg prompt) of
        Inl e \<Rightarrow> (Inl e, sent @ [generator_request cfg prompt])
      | Inr response \<Rightarrow> (Inr (strip response), sent @ [generator_request cfg prompt]))"
  by (simp add: generate_llm_answer_def get_llm_ollama generator_request_def Let_def
      split: sum.splits)


lemma final_prompt_fits:
  "int (length (build_prompt q cs)) \<le> MAX_CONTEXT_LENGTH \<Longrightarrow> final_prompt q cs = build_prompt q cs"
  by (simp add: final_prompt_def Let_def)

lemma final_prompt_exceeds:
  "MAX_CONTEXT_LENGTH < int (length (build_prompt q cs)) \<Longrightarrow>
   final_prompt q cs = build_prompt q (truncated_contexts q cs)"
  by (simp add: final_prompt_def Let_def)

lemma truncated_contexts_prefix:
  "\<exists>k\<le>length cs.
      truncated_contexts q cs = take k cs
    \<and> (\<forall>j<k. total_length (take (Suc j) cs) < MAX_CONTEXT_LENGTH - int (length q) - 100)
    \<and> (k < length cs \<longrightarrow> MAX_CONTEXT_LENGTH - int (length q) - 100 \<le> total_length (take (Suc k) cs))"
  using truncate_loop_prefix [of cs "MAX_CONTEXT_LENGTH - int (length q) - 100" "[]" 0]
  by (auto simp: truncated_contexts_def Let_def)

lemma snd_generate_answer:
  assumes "retrieve cfg sv question = Inr matches" and "matches \<noteq> []"
    and "LLM_PROVIDER cfg = ''ollama''"
  shows "snd (generate_answer cfg sv question sent)
           = sent @ [generator_request cfg (final_prompt question (map match_context matches))]"
  using assms
  by (simp add: generate_answer_retrieve generate_llm_answer_ollama split: sum.splits)

lemma generate_answer_success:
  assumes "retrieve cfg sv question = Inr matches" and "matches \<noteq> []"
    and "LLM_PROVIDER cfg = ''ollama''"
    and "generate_post sv (generator_request cfg (final_prompt question (map match_context matches)))
           = Inr response"
  shows "generate_answer cfg sv question sent
           = (Inr (strip response, map match_source matches),
              sent @ [generator_request cfg (final_prompt question (map match_context matches))])"
  using assms
  by (simp add: generate_answer_retrieve generate_llm_answer_ollama)

lemma demo_config_ollama: "LLM_PROVIDER demo_config = ''ollama''"
  by (simp add: demo_config_def)

lemma retrieve_demo:
  "retrieve demo_config (demo_services ms response) q = Inr (take 5 ms)"
  by (simp add: retrieve_def demo_services_def get_embeddings_single query_similar_def
      TOP_K_RESULTS_def)

lemma meeting_context:
  "match_context meeting_match =
     ''Subject: Project meeting tomorrow'' @ NL @ ''From: a@x.com'' @ NL @ ''Date: Mon'' @ NL
     @ ''Content: Our next meeting is tomorrow at 2 PM in room B.'' @ NL"
  by (simp add: match_context_def meeting_match_def dict_get_def dict_get_or_def)

lemma strip_demo: "strip ''  At 2 PM. '' = ''At 2 PM.''"
  by (simp add: strip_def isspace_def)

lemma preview_context:
  "match_context (preview_match i n) =
     ''Subject: N/A'' @ NL @ ''From: N/A'' @ NL @ ''Date: N/A'' @ NL
     @ ''Content: '' @ (if n = 0 then [] else replicate n (CHR ''x'')) @ NL"
  by (simp add: match_context_def preview_match_def dict_get_def dict_get_or_def)

lemma length_preview_context: "length (match_context (preview_match i n)) = 43 + n"
  by (simp add: preview_context NL_def)

lemma sublist_join:
  "y \<in> set ys \<Longrightarrow> sublist y (join sep ys)"
proof (induction sep ys rule: join.induct)
  case (1 sep)
  then show ?case by simp
next
  case (2 sep x)
  then show ?case by simp
next
  case (3 sep x z zs)
  show ?case
  proof (cases "y = x")
    case True
    have "join sep (x # z # zs) = [] @ y @ (sep @ join sep (z # zs))"
      using True by simp
    then show ?thesis unfolding sublist_def by blast
  next
    case False
    with 3 have "sublist y (join sep (z # zs))" by simp
    then obtain ps ss where "join sep (z # zs) = ps @ y @ ss"
      unfolding sublist_def by blast
    then have "join sep (x # z # zs) = (x @ sep @ ps) @ y @ ss" by simp
    then show ?thesis unfolding sublist_def by blast
  qed
qed

lemma sublist_str_list:
  assumes "n \<in> set xs"
  shows "sublist (repr_str n) (str_list xs)"
proof -
  from assms have "repr_str n \<in> set (map repr_str xs)" by simp
  then have "sublist (repr_str n) (join '', '' (map repr_str xs))"
    by (rule sublist_join)
  then obtain ps ss where "join '', '' (map repr_str xs) = ps @ repr_str n @ ss"
    unfolding sublist_def by blast
  then have "str_list xs = (''['' @ ps) @ repr_str n @ (ss @ '']'')"
    by (simp add: str_list_def)
  then show ?thesis unfolding sublist_def by blast
qed

lemma total_preview:
  "total_length [match_context (preview_match a k), match_context (preview_match b m),
                  match_context (preview_match c n)]
     = 129 + int k + int m + int n"
  by (simp add: total_length_def length_preview_context)

lemma three_2898_over:
  "MAX_CONTEXT_LENGTH < int (length (build_prompt ''q'' (map match_context three_matches_2898)))"
  by (simp add: three_matches_2898_def length_build_prompt length_join length_preview_context
      MAX_CONTEXT_LENGTH_def NL_def)

lemma three_2898_kept:
  "truncated_contexts ''q'' (map match_context three_matches_2898)
     = map match_context three_matches_2898"
  by (simp add: three_matches_2898_def truncated_contexts_def length_preview_context
      MAX_CONTEXT_LENGTH_def)

lemma four_long_over:
  "MAX_CONTEXT_LENGTH < int (length (build_prompt ''q'' (map match_context four_long_matches)))"
  by (simp add: four_long_matches_def length_build_prompt length_join length_preview_context
      MAX_CONTEXT_LENGTH_def NL_def)

lemma three_2899_over:
  "MAX_CONTEXT_LENGTH < int (length (build_prompt ''q'' (map match_context three_matches_2899)))"
  by (simp add: three_matches_2899_def length_build_prompt length_join length_preview_context
      MAX_CONTEXT_LENGTH_def NL_def)






lemma join_concat:
  "cs \<noteq> [] \<Longrightarrow> join sep cs = concat (map (\<lambda>c. c @ sep) (butlast cs)) @ last cs"
  by (induction sep cs rule: join.induct) simp_all

lemma build_prompt_template:
  "cs \<noteq> [] \<Longrightarrow>
   build_prompt q cs =
     ''QUESTION:'' @ NL @ q @ NL @ NL
     @ ''CONTEXT:'' @ NL @ concat (map (\<lambda>c. c @ NL @ NL) (butlast cs)) @ last cs @ NL @ NL
     @ ''Using only the CONTEXT above, answer the QUESTION as accurately and completely as possible.''"
  by (simp add: build_prompt_def instruction_def join_concat)

lemma sparse_context:
  "match_context sparse_match =
     ''Subject: Invoice'' @ NL @ ''From: N/A'' @ NL @ ''Date: Tue'' @ NL @ ''Content: '' @ NL"
  by (simp add: match_context_def sparse_match_def dict_get_def dict_get_or_def)

lemma match_context_explicit:
  "match_context m =
     ''Subject: '' @ (case metadata m ''subject'' of None \<Rightarrow> ''N/A'' | Some v \<Rightarrow> v) @ NL
     @ ''From: '' @ (case metadata m ''from'' of None \<Rightarrow> ''N/A'' | Some v \<Rightarrow> v) @ NL
     @ ''Date: '' @ (case metadata m ''date'' of None \<Rightarrow> ''N/A'' | Some v \<Rightarrow> v) @ NL
     @ ''Content: ''
     @ (case metadata m ''body_preview'' of
          Some b \<Rightarrow>
            if b \<noteq> [] then b
            else (case metadata m ''snippet'' of None \<Rightarrow> [] | Some s \<Rightarrow> s)
        | None \<Rightarrow> (case metadata m ''snippet'' of None \<Rightarrow> [] | Some s \<Rightarrow> s))
     @ NL"
  by (simp add: match_context_def dict_get_def dict_get_or_def Let_def split: option.splits)

lemma match_source_explicit:
  "match_source m =
     \<lparr> src_id = match_id m, src_score = score m,
       src_subject = (case metadata m ''subject'' of None \<Rightarrow> ''N/A'' | Some v \<Rightarrow> v),
       src_from = (case metadata m ''from'' of None \<Rightarrow> ''N/A'' | Some v \<Rightarrow> v),
       src_date = (case metadata m ''date'' of None \<Rightarrow> ''N/A'' | Some v \<Rightarrow> v),
       src_snippet = (case metadata m ''snippet'' of None \<Rightarrow> [] | Some s \<Rightarrow> s) \<rparr>"
  by (simp add: match_source_def dict_get_def Let_def)

lemma build_prompt_explicit:
  "build_prompt q (map f ms) =
     ''QUESTION:'' @ NL @ q @ NL @ NL
     @ ''CONTEXT:'' @ NL
     @ (if ms = [] then []
        else concat (map (\<lambda>m. f m @ NL @ NL) (butlast ms)) @ f (last ms))
     @ NL @ NL
     @ ''Using only the CONTEXT above, answer the QUESTION as accurately and completely as possible.''"
proof (cases "ms = []")
  case True
  then show ?thesis by (simp add: build_prompt_def instruction_def)
next
  case False
  then show ?thesis
    by (simp add: build_prompt_template map_butlast [symmetric] last_map comp_def)
qed

lemma final_prompt_prefix:
  "\<exists>k\<le>length cs. final_prompt q cs = build_prompt q (take k cs)"
proof (cases "int (length (build_prompt q cs)) \<le> MAX_CONTEXT_LENGTH")
  case True
  then show ?thesis
    by (intro exI [of _ "length cs"]) (simp add: final_prompt_fits)
next
  case False
  then have "final_prompt q cs = build_prompt q (truncated_contexts q cs)"
    by (simp add: final_prompt_exceeds)
  with truncated_contexts_prefix [of cs q] show ?thesis by auto
qed





section \<open>Claims\<close>

text \<open>
  C1. When the services answer and the query of the index returns no match,
  \<open>generate_answer\<close> returns the pair of the fixed sentence
  "No relevant emails found for your question." and the empty source list, as a result
  and not as an error, and the list of requests sent to the Generator is unchanged: the
  Generator is not invoked.
\<close>

theorem generate_answer_no_matches:
  assumes "init_pinecone sv = Inr index"
    and "embeddings_post sv (OLLAMA_BASE_URL cfg @ ''/api/embeddings'') (OLLAMA_MODEL cfg) question
           = Inr v"
    and "index_query sv index v TOP_K_RESULTS = Inr []"
  shows "generate_answer cfg sv question sent
           = (Inr (''No relevant emails found for your question.'', []), sent)"
  using assms
  by (simp add: generate_answer_def get_embeddings_single query_similar_def no_matches_answer_def)

theorem generate_answer_no_matches_witness:
  "generate_answer demo_config (demo_services [] ''unused'') ''What is my next meeting about?'' []
     = (Inr (''No relevant emails found for your question.'', []), [])"
  using generate_answer_no_matches [of "demo_services [] ''unused''" "()" demo_config
      "''What is my next meeting about?''" "[length ''What is my next meeting about?'']" "[]"]
  by (simp add: demo_services_def)

text \<open>
  C2. The prompt passed to the Generator is meant to stay within \<open>MAX_CONTEXT_LENGTH\<close>:
  the branch under the comment "Truncate prompt if too long" rebuilds it from the
  contexts that fit. The code misses this. It reserves 100 characters for the template,
  whose fixed text has 114, and does not count the separators between the blocks. For
  the question \<open>q\<close> and three matches whose previews have 923 characters each, the full
  prompt has 3017 characters, the loop keeps all three context blocks (2898 characters
  together, below the 2899 available), and the prompt sent to the Generator is the same
  3017 characters, above the budget of 3000.
\<close>

theorem prompt_exceeds_budget_at_failing_input:
  "MAX_CONTEXT_LENGTH
     < int (length (req_prompt (last (snd
         (generate_answer demo_config (demo_services three_matches_2898 ''ok'') ''q'' [])))))
   \<and> int (length (req_prompt (last (snd
         (generate_answer demo_config (demo_services three_matches_2898 ''ok'') ''q'' [])))))
     = 3017
   \<and> truncated_contexts ''q'' (map match_context three_matches_2898)
     = map match_context three_matches_2898"
proof -
  have r: "retrieve demo_config (demo_services three_matches_2898 ''ok'') ''q''
             = Inr three_matches_2898"
    by (simp add: retrieve_demo three_matches_2898_def)
  have ne: "three_matches_2898 \<noteq> []"
    by (simp add: three_matches_2898_def)
  have "final_prompt ''q'' (map match_context three_matches_2898)
          = build_prompt ''q'' (map match_context three_matches_2898)"
    using three_2898_over by (simp add: final_prompt_exceeds three_2898_kept)
  then have a: "req_prompt (last (snd
         (generate_answer demo_config (demo_services three_matches_2898 ''ok'') ''q'' [])))
     = build_prompt ''q'' (map match_context three_matches_2898)"
    using snd_generate_answer [OF r ne demo_config_ollama, of "[]"]
    by (simp add: generator_request_def)
  have b: "int (length (build_prompt ''q'' (map match_context three_matches_2898))) = 3017"
    by (simp add: three_matches_2898_def length_build_prompt length_join length_preview_context
        NL_def)
  from a b three_2898_kept show ?thesis by (simp add: MAX_CONTEXT_LENGTH_def)
qed

text \<open>
  C3, as stated, fails: the loop does not stop at the first context that would exceed the
  available budget, it stops at the first one that would reach it. For the question \<open>q\<close>
  and three context blocks of 966, 966 and 967 characters the available budget is 2899,
  which the three blocks fill exactly; none would exceed it, and the selection in the
  specification's words takes all three, but the code keeps the first two.
\<close>

theorem stops_before_exact_fit_counterexample:
  "MAX_CONTEXT_LENGTH < int (length (build_prompt ''q'' (map match_context three_matches_2899)))
   \<and> total_length (map match_context three_matches_2899)
       = MAX_CONTEXT_LENGTH - int (length ''q'') - 100
   \<and> spec_included_contexts (MAX_CONTEXT_LENGTH - int (length ''q'') - 100) 0
         (map match_context three_matches_2899)
       = map match_context three_matches_2899
   \<and> truncated_contexts ''q'' (map match_context three_matches_2899)
       = map match_context (take 2 three_matches_2899)
   \<and> final_prompt ''q'' (map match_context three_matches_2899)
       = build_prompt ''q'' (map match_context (take 2 three_matches_2899))"
proof -
  have t: "total_length (map match_context three_matches_2899)
       = MAX_CONTEXT_LENGTH - int (length ''q'') - 100"
    by (simp add: three_matches_2899_def total_preview MAX_CONTEXT_LENGTH_def)
  have s: "spec_included_contexts (MAX_CONTEXT_LENGTH - int (length ''q'') - 100) 0
         (map match_context three_matches_2899)
       = map match_context three_matches_2899"
    by (simp add: three_matches_2899_def length_preview_context MAX_CONTEXT_LENGTH_def)
  have c: "truncated_contexts ''q'' (map match_context three_matches_2899)
       = map match_context (take 2 three_matches_2899)"
    by (simp add: three_matches_2899_def truncated_contexts_def length_preview_context
        MAX_CONTEXT_LENGTH_def)
  from three_2899_over c
  have f: "final_prompt ''q'' (map match_context three_matches_2899)
       = build_prompt ''q'' (map match_context (take 2 three_matches_2899))"
    by (simp add: final_prompt_exceeds)
  from three_2899_over t s c f show ?thesis by blast
qed

text \<open>
  C3, amended. When the full prompt exceeds the budget, the rebuilt prompt is built from
  the first \<open>k\<close> context blocks, whole and in their order, for the \<open>k\<close> at which the loop
  stops: every block before position \<open>k\<close> left the accumulated length below the
  available budget \<open>MAX_CONTEXT_LENGTH - len(question) - 100\<close>, and the block at position
  \<open>k\<close>, when there is one, would bring it to the available budget or beyond.
\<close>

theorem rebuilt_prompt_keeps_prefix:
  assumes "MAX_CONTEXT_LENGTH < int (length (build_prompt question cs))"
  shows "\<exists>k\<le>length cs.
           final_prompt question cs = build_prompt question (take k cs)
         \<and> truncated_contexts question cs = take k cs
         \<and> prefix (truncated_contexts question cs) cs
         \<and> (\<forall>j<k. total_length (take (Suc j) cs)
                     < MAX_CONTEXT_LENGTH - int (length question) - 100)
         \<and> (k < length cs \<longrightarrow>
               MAX_CONTEXT_LENGTH - int (length question) - 100
                 \<le> total_length (take (Suc k) cs))"
proof -
  obtain k where k: "k \<le> length cs" "truncated_contexts question cs = take k cs"
    "\<forall>j<k. total_length (take (Suc j) cs) < MAX_CONTEXT_LENGTH - int (length question) - 100"
    "k < length cs \<longrightarrow>
       MAX_CONTEXT_LENGTH - int (length question) - 100 \<le> total_length (take (Suc k) cs)"
    using truncated_contexts_prefix [of cs question] by blast
  have "prefix (take k cs) cs"
    by (rule take_is_prefix)
  with assms k show ?thesis
    by (intro exI [of _ k]) (simp add: final_prompt_exceeds)
qed

theorem rebuilt_prompt_keeps_prefix_witness:
  "MAX_CONTEXT_LENGTH < int (length (build_prompt ''q'' (map match_context four_long_matches)))
   \<and> (\<exists>k. k \<le> length (map match_context four_long_matches)
        \<and> final_prompt ''q'' (map match_context four_long_matches)
            = build_prompt ''q'' (take k (map match_context four_long_matches))
        \<and> prefix (truncated_contexts ''q'' (map match_context four_long_matches))
            (map match_context four_long_matches))"
  using rebuilt_prompt_keeps_prefix [OF four_long_over] four_long_over
  by blast

text \<open>
  C4. When the index returns at least one match and the unabridged template fits within
  \<open>MAX_CONTEXT_LENGTH\<close>, the request sent to the Generator carries exactly that template:
  the question section, the context section in which every context block but the last
  is followed by a blank line and the last block closes the section, and the fixed
  instruction.
\<close>

theorem prompt_unabridged_when_fits:
  fixes matches :: "'s match list" and question :: string
  defines "blocks \<equiv> map match_context matches"
  defines "template \<equiv>
     ''QUESTION:'' @ NL @ question @ NL @ NL
     @ ''CONTEXT:'' @ NL
     @ concat (map (\<lambda>c. c @ NL @ NL) (butlast blocks)) @ last blocks @ NL @ NL
     @ ''Using only the CONTEXT above, answer the QUESTION as accurately and completely as possible.''"
  assumes "retrieve cfg sv question = Inr matches" and "matches \<noteq> []"
    and "LLM_PROVIDER cfg = ''ollama''"
    and "int (length template) \<le> MAX_CONTEXT_LENGTH"
  shows "snd (generate_answer cfg sv question sent) = sent @ [generator_request cfg template]"
proof -
  have t: "template = build_prompt question (map match_context matches)"
    using assms(4) by (simp add: template_def blocks_def build_prompt_template)
  with assms(6) have "final_prompt question (map match_context matches) = template"
    by (simp add: final_prompt_fits)
  with assms(3-5) show ?thesis
    by (simp add: snd_generate_answer)
qed

theorem prompt_unabridged_when_fits_witness:
  "snd (generate_answer demo_config (demo_services [meeting_match, sparse_match] ''At 2 PM.'')
          ''What is my next meeting about?'' [])
     = [\<lparr> req_url = ''http://localhost:11434/api/generate'', req_model = ''llama3.2'',
          req_prompt =
            ''QUESTION:'' @ NL @ ''What is my next meeting about?'' @ NL @ NL
            @ ''CONTEXT:'' @ NL
            @ ''Subject: Project meeting tomorrow'' @ NL @ ''From: a@x.com'' @ NL
            @ ''Date: Mon'' @ NL
            @ ''Content: Our next meeting is tomorrow at 2 PM in room B.'' @ NL
            @ NL @ NL
            @ ''Subject: Invoice'' @ NL @ ''From: N/A'' @ NL @ ''Date: Tue'' @ NL
            @ ''Content: '' @ NL
            @ NL @ NL
            @ ''Using only the CONTEXT above, answer the QUESTION as accurately and completely as possible.'',
          num_predict = 512 \<rparr>]"
proof -
  let ?ms = "[meeting_match, sparse_match]"
  have r: "retrieve demo_config (demo_services ?ms ''At 2 PM.'')
             ''What is my next meeting about?'' = Inr ?ms"
    by (simp add: retrieve_demo)
  have f: "int (length
      (''QUESTION:'' @ NL @ ''What is my next meeting about?'' @ NL @ NL
       @ ''CONTEXT:'' @ NL
       @ concat (map (\<lambda>c. c @ NL @ NL) (butlast (map match_context ?ms)))
       @ last (map match_context ?ms) @ NL @ NL
       @ ''Using only the CONTEXT above, answer the QUESTION as accurately and completely as possible.''))
      \<le> MAX_CONTEXT_LENGTH"
    by (simp add: meeting_context sparse_context MAX_CONTEXT_LENGTH_def NL_def)
  show ?thesis
    using prompt_unabridged_when_fits [OF r _ demo_config_ollama f, of "[]"]
    by (simp add: meeting_context sparse_context generator_request_def demo_config_def)
qed

text \<open>
  C5. The context block that the loop builds for the match at position \<open>i\<close> is the four
  lines \<open>Subject:\<close>, \<open>From:\<close>, \<open>Date:\<close> and \<open>Content:\<close> in this order, each ended by a
  newline. A subject, sender or date that the metadata lacks is rendered as \<open>N/A\<close>; the
  content is the body preview when it is there and not empty, otherwise the snippet,
  otherwise the empty string.
\<close>

theorem context_block_layout:
  assumes "i < length matches"
  shows "fst (collect_matches matches ([], [])) ! i =
           ''Subject: '' @ (case metadata (matches ! i) ''subject'' of None \<Rightarrow> ''N/A'' | Some v \<Rightarrow> v) @ NL
         @ ''From: '' @ (case metadata (matches ! i) ''from'' of None \<Rightarrow> ''N/A'' | Some v \<Rightarrow> v) @ NL
         @ ''Date: '' @ (case metadata (matches ! i) ''date'' of None \<Rightarrow> ''N/A'' | Some v \<Rightarrow> v) @ NL
         @ ''Content: ''
         @ (case metadata (matches ! i) ''body_preview'' of
              Some b \<Rightarrow>
                if b \<noteq> [] then b
                else (case metadata (matches ! i) ''snippet'' of None \<Rightarrow> [] | Some s \<Rightarrow> s)
            | None \<Rightarrow> (case metadata (matches ! i) ''snippet'' of None \<Rightarrow> [] | Some s \<Rightarrow> s))
         @ NL"
  using assms
  by (simp add: collect_matches_map match_context_def dict_get_def dict_get_or_def Let_def
      split: option.splits)

theorem context_block_layout_witness:
  "fst (collect_matches [meeting_match, sparse_match] ([], [])) ! 1 =
     ''Subject: Invoice'' @ NL @ ''From: N/A'' @ NL @ ''Date: Tue'' @ NL @ ''Content: '' @ NL"
  using context_block_layout [of 1 "[meeting_match, sparse_match]"]
  by (simp add: sparse_match_def)

text \<open>
  C6. For a provider name that is not a key of the factory's dictionary,
  \<open>get_llm_provider\<close> fails with the error whose message names the unknown provider and
  lists the registered names (each of them occurs, quoted, in the message); for a
  registered name it returns what the registered constructor makes of the keyword
  arguments, which is the Ollama provider when the keywords are among \<open>base_url\<close> and
  \<open>model\<close>. The error is Python's \<open>ValueError\<close>.
\<close>

theorem get_llm_provider_factory:
  "(provider_name \<notin> set (map fst providers) \<longrightarrow>
        get_llm_provider provider_name kwargs
          = Inl (ValueError (''Unknown provider: '' @ provider_name @ ''. Available: ''
                   @ str_list (map fst providers)))
      \<and> (\<forall>n\<in>set (map fst providers). sublist (repr_str n) (str_list (map fst providers))))
   \<and> (provider_name \<in> set (map fst providers) \<longrightarrow>
        (\<exists>cls. (provider_name, cls) \<in> set providers
               \<and> get_llm_provider provider_name kwargs = cls kwargs)
      \<and> (set (map fst kwargs) \<subseteq> {''base_url'', ''model''} \<longrightarrow>
            get_llm_provider provider_name kwargs
              = Inr (OllamaProvider
                  \<lparr> base_url = dict_get (map_of kwargs) ''base_url'' ''http://localhost:11434'',
                    model = dict_get (map_of kwargs) ''model'' ''llama3.2'' \<rparr>)))"
proof (intro conjI impI)
  assume "provider_name \<notin> set (map fst providers)"
  then have "map_of providers provider_name = None"
    by (simp add: map_of_eq_None_iff)
  then show "get_llm_provider provider_name kwargs
          = Inl (ValueError (''Unknown provider: '' @ provider_name @ ''. Available: ''
                   @ str_list (map fst providers)))"
    by (simp add: get_llm_provider_def)
next
  show "\<forall>n\<in>set (map fst providers). sublist (repr_str n) (str_list (map fst providers))"
    by (simp add: sublist_str_list)
next
  assume "provider_name \<in> set (map fst providers)"
  then show "\<exists>cls. (provider_name, cls) \<in> set providers
               \<and> get_llm_provider provider_name kwargs = cls kwargs"
    by (auto simp: get_llm_provider_def providers_def)
next
  assume p: "provider_name \<in> set (map fst providers)"
    and k: "set (map fst kwargs) \<subseteq> {''base_url'', ''model''}"
  from k have "filter (\<lambda>k. k \<noteq> ''base_url'' \<and> k \<noteq> ''model'') (map fst kwargs) = []"
    by (auto simp: filter_empty_conv)
  with p show "get_llm_provider provider_name kwargs
              = Inr (OllamaProvider
                  \<lparr> base_url = dict_get (map_of kwargs) ''base_url'' ''http://localhost:11434'',
                    model = dict_get (map_of kwargs) ''model'' ''llama3.2'' \<rparr>)"
    by (simp add: get_llm_provider_def providers_def OllamaProvider_init_def)
qed

theorem get_llm_provider_factory_witness:
  "get_llm_provider ''replicate'' []
     = Inl (ValueError (''Unknown provider: replicate. Available: ['' @ [CHR 0x27] @ ''ollama''
              @ [CHR 0x27] @ '']''))
   \<and> get_llm_provider ''ollama'' [(''model'', ''llama3.1'')]
     = Inr (OllamaProvider \<lparr> base_url = ''http://localhost:11434'', model = ''llama3.1'' \<rparr>)"
proof -
  have "''replicate'' \<notin> set (map fst providers)"
    by (simp add: providers_def)
  with get_llm_provider_factory [of "''replicate''" "[]"]
  have a: "get_llm_provider ''replicate'' []
             = Inl (ValueError (''Unknown provider: '' @ ''replicate'' @ ''. Available: ''
                      @ str_list (map fst providers)))"
    by blast
  have "''ollama'' \<in> set (map fst providers)"
    "set (map fst [(''model'', ''llama3.1'')]) \<subseteq> {''base_url'', ''model''}"
    by (simp_all add: providers_def)
  with get_llm_provider_factory [of "''ollama''" "[(''model'', ''llama3.1'')]"]
  have b: "get_llm_provider ''ollama'' [(''model'', ''llama3.1'')]
             = Inr (OllamaProvider
                 \<lparr> base_url = dict_get (map_of [(''model'', ''llama3.1'')]) ''base_url''
                                ''http://localhost:11434'',
                   model = dict_get (map_of [(''model'', ''llama3.1'')]) ''model'' ''llama3.2'' \<rparr>)"
    by blast
  from a b show ?thesis
    by (simp add: providers_def str_list_def repr_str_def dict_get_def)
qed

text \<open>
  C7. When the index returns a non-empty list of matches and the Generator answers, the
  prompt sent renders the first \<open>k\<close> matches, for some \<open>k\<close>, in the order of the index,
  each as its four lines and separated by blank lines, and the returned sources are the
  projections of the matches position by position: the source at position \<open>i\<close> carries
  the id, the score and the metadata fields of the match at position \<open>i\<close>.
\<close>

theorem sources_in_match_order:
  fixes matches :: "'s match list" and question :: string
  defines "render \<equiv> \<lambda>m :: 's match.
     ''Subject: '' @ (case metadata m ''subject'' of None \<Rightarrow> ''N/A'' | Some v \<Rightarrow> v) @ NL
     @ ''From: '' @ (case metadata m ''from'' of None \<Rightarrow> ''N/A'' | Some v \<Rightarrow> v) @ NL
     @ ''Date: '' @ (case metadata m ''date'' of None \<Rightarrow> ''N/A'' | Some v \<Rightarrow> v) @ NL
     @ ''Content: ''
     @ (case metadata m ''body_preview'' of
          Some b \<Rightarrow>
            if b \<noteq> [] then b
            else (case metadata m ''snippet'' of None \<Rightarrow> [] | Some s \<Rightarrow> s)
        | None \<Rightarrow> (case metadata m ''snippet'' of None \<Rightarrow> [] | Some s \<Rightarrow> s))
     @ NL"
  defines "prompt_of \<equiv> \<lambda>kept :: 's match list.
     ''QUESTION:'' @ NL @ question @ NL @ NL
     @ ''CONTEXT:'' @ NL
     @ (if kept = [] then []
        else concat (map (\<lambda>m. render m @ NL @ NL) (butlast kept)) @ render (last kept))
     @ NL @ NL
     @ ''Using only the CONTEXT above, answer the QUESTION as accurately and completely as possible.''"
  assumes "retrieve cfg sv question = Inr matches" and "matches \<noteq> []"
    and "LLM_PROVIDER cfg = ''ollama''"
    and "generate_post sv (generator_request cfg (final_prompt question (map match_context matches)))
           = Inr response"
  shows "\<exists>srcs k. k \<le> length matches
         \<and> generate_answer cfg sv question sent
             = (Inr (strip response, srcs),
                sent @ [generator_request cfg (prompt_of (take k matches))])
         \<and> length srcs = length matches
         \<and> (\<forall>i<length matches.
               srcs ! i =
                 \<lparr> src_id = match_id (matches ! i), src_score = score (matches ! i),
                   src_subject = (case metadata (matches ! i) ''subject'' of
                                    None \<Rightarrow> ''N/A'' | Some v \<Rightarrow> v),
                   src_from = (case metadata (matches ! i) ''from'' of
                                 None \<Rightarrow> ''N/A'' | Some v \<Rightarrow> v),
                   src_date = (case metadata (matches ! i) ''date'' of
                                 None \<Rightarrow> ''N/A'' | Some v \<Rightarrow> v),
                   src_snippet = (case metadata (matches ! i) ''snippet'' of
                                    None \<Rightarrow> [] | Some s \<Rightarrow> s) \<rparr>)"
proof -
  obtain k where k: "k \<le> length matches"
    "final_prompt question (map match_context matches)
       = build_prompt question (map match_context (take k matches))"
    using final_prompt_prefix [of "map match_context matches" question]
    by (auto simp: take_map)
  have r: "match_context = render"
    unfolding render_def by (rule ext) (rule match_context_explicit)
  have p: "build_prompt question (map match_context (take k matches)) = prompt_of (take k matches)"
    unfolding prompt_of_def r [symmetric] by (rule build_prompt_explicit)
  have g: "generate_answer cfg sv question sent
             = (Inr (strip response, map match_source matches),
                sent @ [generator_request cfg (prompt_of (take k matches))])"
    using assms(3-6) k(2) p by (simp add: generate_answer_success)
  show ?thesis
    using k(1) g
    by (intro exI [of _ "map match_source matches"] exI [of _ k])
      (simp add: match_source_explicit)
qed

theorem sources_in_match_order_witness:
  "generate_answer demo_config (demo_services [meeting_match, sparse_match] ''  At 2 PM. '')
          ''What is my next meeting about?'' []
     = (Inr (''At 2 PM.'',
             [\<lparr> src_id = ''18c2f0a1'', src_score = 912, src_subject = ''Project meeting tomorrow'',
                src_from = ''a@x.com'', src_date = ''Mon'', src_snippet = [] \<rparr>,
              \<lparr> src_id = ''18c2f0b7'', src_score = 640, src_subject = ''Invoice'',
                src_from = ''N/A'', src_date = ''Tue'', src_snippet = [] \<rparr>]),
        [\<lparr> req_url = ''http://localhost:11434/api/generate'', req_model = ''llama3.2'',
           req_prompt =
             ''QUESTION:'' @ NL @ ''What is my next meeting about?'' @ NL @ NL
             @ ''CONTEXT:'' @ NL
             @ ''Subject: Project meeting tomorrow'' @ NL @ ''From: a@x.com'' @ NL
             @ ''Date: Mon'' @ NL
             @ ''Content: Our next meeting is tomorrow at 2 PM in room B.'' @ NL
             @ NL @ NL
             @ ''Subject: Invoice'' @ NL @ ''From: N/A'' @ NL @ ''Date: Tue'' @ NL
             @ ''Content: '' @ NL
             @ NL @ NL
             @ ''Using only the CONTEXT above, answer the QUESTION as accurately and completely as possible.'',
           num_predict = 512 \<rparr>])"
proof -
  let ?ms = "[meeting_match, sparse_match]"
  let ?sv = "demo_services ?ms ''  At 2 PM. ''"
  let ?q = "''What is my next meeting about?''"
  have r: "retrieve demo_config ?sv ?q = Inr ?ms"
    by (simp add: retrieve_demo)
  have g: "generate_post ?sv (generator_request demo_config (final_prompt ?q (map match_context ?ms)))
           = Inr ''  At 2 PM. ''"
    by (simp add: demo_services_def)
  from sources_in_match_order [OF r _ demo_config_ollama g, of "[]"]
  obtain srcs req where
    a: "generate_answer demo_config ?sv ?q [] = (Inr (strip ''  At 2 PM. '', srcs), [req])"
    and l: "length srcs = length ?ms"
    and n: "\<forall>i<length ?ms.
              srcs ! i =
                \<lparr> src_id = match_id (?ms ! i), src_score = score (?ms ! i),
                  src_subject = (case metadata (?ms ! i) ''subject'' of
                                   None \<Rightarrow> ''N/A'' | Some v \<Rightarrow> v),
                  src_from = (case metadata (?ms ! i) ''from'' of
                                None \<Rightarrow> ''N/A'' | Some v \<Rightarrow> v),
                  src_date = (case metadata (?ms ! i) ''date'' of
                                None \<Rightarrow> ''N/A'' | Some v \<Rightarrow> v),
                  src_snippet = (case metadata (?ms ! i) ''snippet'' of
                                   None \<Rightarrow> [] | Some s \<Rightarrow> s) \<rparr>"
    by auto
  from n have "srcs ! 0 = \<lparr> src_id = ''18c2f0a1'', src_score = 912,
                 src_subject = ''Project meeting tomorrow'',
                 src_from = ''a@x.com'', src_date = ''Mon'', src_snippet = [] \<rparr>"
    and "srcs ! 1 = \<lparr> src_id = ''18c2f0b7'', src_score = 640, src_subject = ''Invoice'',
                 src_from = ''N/A'', src_date = ''Tue'', src_snippet = [] \<rparr>"
    by (simp_all add: meeting_match_def sparse_match_def)
  with l have s: "srcs =
             [\<lparr> src_id = ''18c2f0a1'', src_score = 912, src_subject = ''Project meeting tomorrow'',
                src_from = ''a@x.com'', src_date = ''Mon'', src_snippet = [] \<rparr>,
              \<lparr> src_id = ''18c2f0b7'', src_score = 640, src_subject = ''Invoice'',
                src_from = ''N/A'', src_date = ''Tue'', src_snippet = [] \<rparr>]"
    by (intro nth_equalityI) (auto simp: less_Suc_eq)
  have f: "int (length (build_prompt ?q (map match_context ?ms))) \<le> MAX_CONTEXT_LENGTH"
    by (simp add: meeting_context sparse_context length_build_prompt MAX_CONTEXT_LENGTH_def NL_def)
  have "snd (generate_answer demo_config ?sv ?q [])
          = [generator_request demo_config (build_prompt ?q (map match_context ?ms))]"
    using snd_generate_answer [OF r _ demo_config_ollama, of "[]"] f
    by (simp add: final_prompt_fits)
  with a have "req = generator_request demo_config (build_prompt ?q (map match_context ?ms))"
    by simp
  with a s show ?thesis
    by (simp add: strip_demo generator_request_def demo_config_def build_prompt_def
        instruction_def meeting_context sparse_context)
qed




text \<open>
  C9. When the index returns a non-empty list of matches and the Generator answers,
  \<open>generate_answer\<close> returns one source per match, whether the prompt sent was the full
  one or the one rebuilt from the truncated contexts.
\<close>

theorem sources_complete_under_truncation:
  assumes "retrieve cfg sv question = Inr matches" and "matches \<noteq> []"
    and "LLM_PROVIDER cfg = ''ollama''"
    and "generate_post sv (generator_request cfg (final_prompt question (map match_context matches)))
           = Inr response"
  shows "\<exists>answer srcs.
           generate_answer cfg sv question sent
             = (Inr (answer, srcs),
                sent @ [generator_request cfg
                  (if MAX_CONTEXT_LENGTH < int (length (build_prompt question (map match_context matches)))
                   then build_prompt question
                          (truncated_contexts question (map match_context matches))
                   else build_prompt question (map match_context matches))])
         \<and> length srcs = length matches"
  using assms
  by (simp add: generate_answer_success final_prompt_def Let_def)

theorem sources_complete_under_truncation_witness:
  "MAX_CONTEXT_LENGTH < int (length (build_prompt ''q'' (map match_context four_long_matches)))
   \<and> truncated_contexts ''q'' (map match_context four_long_matches)
       = map match_context (take 2 four_long_matches)
   \<and> (\<exists>answer srcs sent'.
         generate_answer demo_config (demo_services four_long_matches ''ok'') ''q'' []
           = (Inr (answer, srcs), sent')
       \<and> length srcs = 4)"
proof -
  have r: "retrieve demo_config (demo_services four_long_matches ''ok'') ''q''
             = Inr four_long_matches"
    by (simp add: retrieve_demo four_long_matches_def)
  have g: "generate_post (demo_services four_long_matches ''ok'')
             (generator_request demo_config
                (final_prompt ''q'' (map match_context four_long_matches)))
           = Inr ''ok''"
    by (simp add: demo_services_def)
  have ne: "four_long_matches \<noteq> []"
    by (simp add: four_long_matches_def)
  have over: "MAX_CONTEXT_LENGTH
                < int (length (build_prompt ''q'' (map match_context four_long_matches)))"
    by (simp add: four_long_matches_def length_build_prompt length_join length_preview_context
        MAX_CONTEXT_LENGTH_def NL_def)
  have cut: "truncated_contexts ''q'' (map match_context four_long_matches)
               = map match_context (take 2 four_long_matches)"
    by (simp add: four_long_matches_def truncated_contexts_def length_preview_context
        MAX_CONTEXT_LENGTH_def)
  from sources_complete_under_truncation [OF r ne demo_config_ollama g, of "[]"]
  have "\<exists>answer srcs sent'.
         generate_answer demo_config (demo_services four_long_matches ''ok'') ''q'' []
           = (Inr (answer, srcs), sent')
       \<and> length srcs = 4"
    by (auto simp: four_long_matches_def)
  with over cut show ?thesis by blast
qed

text \<open>
  C10. In the source returned for the match at position \<open>i\<close>, a subject, sender or date
  that the metadata lacks is the string \<open>N/A\<close>, while a snippet that the metadata lacks
  is the empty string and not \<open>N/A\<close>.
\<close>

theorem source_field_defaults:
  assumes "retrieve cfg sv question = Inr matches" and "matches \<noteq> []"
    and "LLM_PROVIDER cfg = ''ollama''"
    and "generate_post sv (generator_request cfg (final_prompt question (map match_context matches)))
           = Inr response"
    and "i < length matches"
  shows "\<exists>answer srcs sent'.
           generate_answer cfg sv question sent = (Inr (answer, srcs), sent')
         \<and> (metadata (matches ! i) ''subject'' = None \<longrightarrow> src_subject (srcs ! i) = ''N/A'')
         \<and> (metadata (matches ! i) ''from'' = None \<longrightarrow> src_from (srcs ! i) = ''N/A'')
         \<and> (metadata (matches ! i) ''date'' = None \<longrightarrow> src_date (srcs ! i) = ''N/A'')
         \<and> (metadata (matches ! i) ''snippet'' = None \<longrightarrow>
               src_snippet (srcs ! i) = [] \<and> src_snippet (srcs ! i) \<noteq> ''N/A'')"
  using assms
  by (simp add: generate_answer_success match_source_def dict_get_def Let_def)

theorem source_field_defaults_witness:
  "\<exists>answer srcs sent'.
     generate_answer demo_config (demo_services [sparse_match] ''ok'') ''Any invoice?'' []
       = (Inr (answer, srcs), sent')
   \<and> src_subject (srcs ! 0) = ''Invoice''
   \<and> src_from (srcs ! 0) = ''N/A''
   \<and> src_snippet (srcs ! 0) = []"
proof -
  have r: "retrieve demo_config (demo_services [sparse_match] ''ok'') ''Any invoice?''
             = Inr [sparse_match]"
    by (simp add: retrieve_demo)
  have g: "generate_post (demo_services [sparse_match] ''ok'')
             (generator_request demo_config
                (final_prompt ''Any invoice?'' (map match_context [sparse_match])))
           = Inr ''ok''"
    by (simp add: demo_services_def)
  have m: "metadata ([sparse_match] ! 0) ''from'' = None"
    "metadata ([sparse_match] ! 0) ''snippet'' = None"
    by (simp_all add: sparse_match_def)
  from source_field_defaults [OF r _ demo_config_ollama g, of 0 "[]"]
  obtain answer srcs sent' where
    a: "generate_answer demo_config (demo_services [sparse_match] ''ok'') ''Any invoice?'' []
          = (Inr (answer, srcs), sent')"
    and f: "metadata ([sparse_match] ! 0) ''from'' = None \<longrightarrow> src_from (srcs ! 0) = ''N/A''"
    and s: "metadata ([sparse_match] ! 0) ''snippet'' = None \<longrightarrow>
              src_snippet (srcs ! 0) = [] \<and> src_snippet (srcs ! 0) \<noteq> ''N/A''"
    by auto
  have "srcs = [match_source sparse_match]"
    using a r g by (simp add: generate_answer_success demo_config_ollama)
  then have "src_subject (srcs ! 0) = ''Invoice''"
    by (simp add: match_source_def sparse_match_def dict_get_def Let_def)
  with a f s m show ?thesis by blast
qed

end
